theory Spec2Isabelle
  imports Complex_Main "HOL-Library.Word"
begin

section \<open>JavaScript strings\<close>

text \<open>
  A JavaScript string is a sequence of 16-bit code units. \<open>js\<close> writes an ASCII
  literal as code units; characters beyond ASCII are written as their code units.
\<close>

type_synonym code_unit = "16 word"
type_synonym js_string = "code_unit list"

definition js :: "string \<Rightarrow> js_string" where
  "js s = map (\<lambda>c. word_of_nat (of_char c)) s"

text \<open>
  \<open>String.prototype.trim\<close> removes WhiteSpace and LineTerminator code points from both
  ends: TAB, LF, VT, FF, CR, SP, NBSP, U+1680, U+2000..U+200A, U+2028, U+2029, U+202F,
  U+205F, U+3000 and U+FEFF.
\<close>

definition is_js_space :: "code_unit \<Rightarrow> bool" where
  "is_js_space c =
     (c \<in> set [0x9, 0xA, 0xB, 0xC, 0xD, 0x20, 0xA0, 0x1680, 0x2028, 0x2029, 0x202F,
                0x205F, 0x3000, 0xFEFF]
      \<or> (0x2000 \<le> c \<and> c \<le> 0x200A))"

definition trim :: "js_string \<Rightarrow> js_string" where
  "trim s = rev (dropWhile is_js_space (rev (dropWhile is_js_space s)))"

text \<open>\<open>s.split(',')[0]\<close>: the part of \<open>s\<close> before its first comma (all of it when there is none).\<close>

definition split_comma_first :: "js_string \<Rightarrow> js_string" where
  "split_comma_first s = takeWhile (\<lambda>c. c \<noteq> 0x2C) s"

section \<open>The search request of the two frontends\<close>

text \<open>
  What \<open>fetch\<close> is called with. \<open>req_body\<close> is the object handed to \<open>JSON.stringify\<close>, as
  its properties in insertion order; both frontends only put string values there.
\<close>

record request =
  req_url :: js_string
  req_method :: js_string
  req_headers :: "(js_string \<times> js_string) list"
  req_body :: "(js_string \<times> js_string) list"

subsection \<open>App.jsx: handleSubmit\<close>

datatype role = Assistant | User

record message =
  msg_role :: role
  msg_content :: js_string
  msg_isLoading :: bool

record app_state =
  messages :: "message list"
  input :: js_string
  loading :: bool

definition API_URL :: js_string where
  "API_URL = js ''http://localhost:8000''"

text \<open>The content of the message shown while the search runs; it starts with U+1F50D.\<close>

definition thinking_content :: js_string where
  "thinking_content = [0xD83D, 0xDD0D] @ js '' Searching all sources...''"

text \<open>
  \<open>handleSubmit\<close> up to its call of \<open>fetch\<close>: \<open>None\<close> is the early return (nothing is
  sent), otherwise the state after the four setters and the request that is sent. What
  follows the call only reads the response.
\<close>

definition handleSubmit :: "app_state \<Rightarrow> (app_state \<times> request) option" where
  "handleSubmit s =
     (if trim (input s) = [] \<or> loading s then None
      else
        let userMessage = trim (input s) in
        Some
          (s\<lparr>input := [],
             messages := messages s
               @ [\<lparr>msg_role = User, msg_content = userMessage, msg_isLoading = False\<rparr>]
               @ [\<lparr>msg_role = Assistant, msg_content = thinking_content, msg_isLoading = True\<rparr>],
             loading := True\<rparr>,
           \<lparr>req_url = API_URL @ js ''/search'',
            req_method = js ''POST'',
            req_headers = [(js ''Content-Type'', js ''application/json'')],
            req_body = [(js ''city'', userMessage), (js ''weekend'', js ''next'')]\<rparr>))"

subsection \<open>WeekenderApp.jsx, first component: handleSearch\<close>

text \<open>
  The file holds two components of the same name. The first (from line 3) calls the
  backend; the second (from line 1464) shows fixed results.
\<close>

record weekender_state =
  searchCity :: js_string
  searchDate :: js_string
  isSearching :: bool
  searchError :: js_string

text \<open>
  The keys of \<open>dateOptions\<close>. \<open>searchDate\<close> starts as \<open>'this-weekend'\<close> and is only ever set
  to \<open>option.key\<close> of one of them.
\<close>

definition dateOption_keys :: "js_string list" where
  "dateOption_keys = [js ''this-weekend'', js ''next-weekend'', js ''two-weeks'', js ''custom'']"

text \<open>
  \<open>weekendMap[searchDate] || 'this'\<close>, for a \<open>searchDate\<close> among the keys of \<open>dateOptions\<close>:
  the lookup is then one in the three own properties of \<open>weekendMap\<close>. (For a
  string such as \<open>'toString'\<close> the JavaScript lookup would find an inherited property;
  the statements below are made for the keys of \<open>dateOptions\<close> only.)
\<close>

definition weekendMap :: "(js_string \<times> js_string) list" where
  "weekendMap =
     [(js ''this-weekend'', js ''this''),
      (js ''next-weekend'', js ''next''),
      (js ''two-weeks'', js ''two-weeks'')]"

definition weekendParam :: "js_string \<Rightarrow> js_string" where
  "weekendParam sd = (case map_of weekendMap sd of None \<Rightarrow> js ''this'' | Some v \<Rightarrow> v)"

text \<open>\<open>handleSearch\<close> up to its call of \<open>fetch\<close>, in the same form as \<open>handleSubmit\<close>.\<close>

definition handleSearch :: "weekender_state \<Rightarrow> (weekender_state \<times> request) option" where
  "handleSearch w =
     (if searchCity w = [] then None
      else
        Some
          (w\<lparr>isSearching := True, searchError := []\<rparr>,
           \<lparr>req_url = js ''https://weekenders-app.onrender.com/search'',
            req_method = js ''POST'',
            req_headers = [(js ''Content-Type'', js ''application/json'')],
            req_body =
              [(js ''city'', trim (split_comma_first (searchCity w))),
               (js ''weekend'', weekendParam (searchDate w))]\<rparr>))"

subsection \<open>WeekenderApp.jsx, second component: handleSearch\<close>

text \<open>
  The second component's \<open>handleSearch\<close> calls no \<open>fetch\<close>: with a city it sets
  \<open>isSearching\<close> and starts a timer (whose callback, 1.5 seconds later, resets
  \<open>isSearching\<close> and sets \<open>hasResults\<close>); without one it does nothing. The result is
  the state after the call and the request sent, of which there is none.
\<close>

definition handleSearch_second :: "weekender_state \<Rightarrow> weekender_state \<times> request option" where
  "handleSearch_second w =
     (if searchCity w \<noteq> [] then (w\<lparr>isSearching := True\<rparr>, None) else (w, None))"

section \<open>The context classifier\<close>

text \<open>
  The context router is not among the sources; the notes on it describe what the
  language model is asked for. The definitions of this section follow the
  specification of the classifier (its data model and section 4.2).
\<close>

text \<open>Modelled from the spec: the four categories of the data model.\<close>

datatype category = Concerts | Dining | Events | Locations

text \<open>Modelled from the spec: the enumerated set of city types.\<close>

datatype city_type = LargeMetro | MediumCity | SmallTown

text \<open>Modelled from the spec: the two search strategies of a category.\<close>

datatype strategy = CityWide | NeighborhoodTargeted

text \<open>
  Modelled from the spec: the answer of the classification capability, which is to match
  the schema of SearchContext but is not trusted to: its city type is the text it
  sent, its radii (in miles) and strategies are listed per category.
\<close>

record classification =
  cl_location :: string
  cl_city_type :: string
  cl_population_tier :: string
  cl_needs_neighborhood_strategy :: bool
  cl_neighborhoods :: "string list"
  cl_search_parameters :: "(category \<times> rat) list"
  cl_strategy :: "(category \<times> strategy) list"

text \<open>
  Modelled from the spec: SearchContext, the validated context that the planner
  consumes.
\<close>

record search_context =
  sc_location_normalized :: string
  sc_city_type :: city_type
  sc_population_tier :: string
  sc_needs_neighborhood_strategy :: bool
  sc_neighborhoods :: "string list"
  sc_search_parameters :: "(category \<times> rat) list"
  sc_strategy :: "(category \<times> strategy) list"

text \<open>Modelled from the spec: ``reject if city_type not in the enumerated set''.\<close>

definition parse_city_type :: "string \<Rightarrow> city_type option" where
  "parse_city_type s =
     (if s = ''large_metro'' then Some LargeMetro
      else if s = ''medium_city'' then Some MediumCity
      else if s = ''small_town'' then Some SmallTown
      else None)"

text \<open>
  Modelled from the spec: ``reject if neighborhoods length is outside [3,6] for
  large_metro or non-empty for medium/small''.
\<close>

fun neighborhoods_ok :: "city_type \<Rightarrow> string list \<Rightarrow> bool" where
  "neighborhoods_ok LargeMetro ns = (3 \<le> length ns \<and> length ns \<le> 6)"
| "neighborhoods_ok MediumCity ns = (ns = [])"
| "neighborhoods_ok SmallTown ns = (ns = [])"

text \<open>
  Modelled from the spec: ``reject if any declared category radius is <= 0 or a
  dining/locations radius exceeds the concert radius for the same context''. A radius
  can only exceed a concert radius that is declared.
\<close>

definition exceeds_concert :: "(category \<times> rat) list \<Rightarrow> category \<Rightarrow> bool" where
  "exceeds_concert ps c =
     (case (map_of ps c, map_of ps Concerts) of
        (Some r, Some rc) \<Rightarrow> rc < r
      | _ \<Rightarrow> False)"

definition radii_ok :: "(category \<times> rat) list \<Rightarrow> bool" where
  "radii_ok ps =
     (list_all (\<lambda>(c, r). 0 < r) ps
      \<and> \<not> exceeds_concert ps Dining \<and> \<not> exceeds_concert ps Locations)"

text \<open>
  Modelled from the spec: the strict post-validation of an answer, \<open>None\<close> when it is
  rejected and the context it becomes otherwise.
\<close>

definition validate :: "string \<Rightarrow> classification \<Rightarrow> search_context option" where
  "validate location_normalized cl =
     (case parse_city_type (cl_city_type cl) of
        None \<Rightarrow> None
      | Some ct \<Rightarrow>
          if neighborhoods_ok ct (cl_neighborhoods cl) \<and> radii_ok (cl_search_parameters cl)
          then Some
            \<lparr>sc_location_normalized = location_normalized,
             sc_city_type = ct,
             sc_population_tier = cl_population_tier cl,
             sc_needs_neighborhood_strategy = cl_needs_neighborhood_strategy cl,
             sc_neighborhoods = cl_neighborhoods cl,
             sc_search_parameters = cl_search_parameters cl,
             sc_strategy = cl_strategy cl\<rparr>
          else None)"

text \<open>
  Modelled from the spec: the deterministic default context, ``city_type=medium_city,
  no neighborhoods, fixed moderate radii per category''. The spec does not give the
  radii or the population tier: they are the parameters \<open>default_radii\<close> and
  \<open>default_tier\<close>. Without neighborhoods every category is searched city-wide.
\<close>

definition fallback_context :: "string \<Rightarrow> (category \<times> rat) list \<Rightarrow> string \<Rightarrow> search_context" where
  "fallback_context default_tier default_radii location_normalized =
     \<lparr>sc_location_normalized = location_normalized,
      sc_city_type = MediumCity,
      sc_population_tier = default_tier,
      sc_needs_neighborhood_strategy = False,
      sc_neighborhoods = [],
      sc_search_parameters = default_radii,
      sc_strategy =
        [(Concerts, CityWide), (Dining, CityWide), (Events, CityWide), (Locations, CityWide)]\<rparr>"

text \<open>
  Modelled from the spec: the classification calls of one request. \<open>capability k\<close> is
  the answer to call number \<open>k\<close> (0 for the first call, then the retries ``with a
  stricter prompt/schema''), \<open>None\<close> when the capability is unavailable; such a call
  counts as failed. \<open>first_valid\<close> goes through the given calls in order and returns the
  first context that passes validation.
\<close>

fun first_valid ::
  "(nat \<Rightarrow> classification option) \<Rightarrow> string \<Rightarrow> nat list \<Rightarrow> search_context option" where
  "first_valid capability location_normalized [] = None"
| "first_valid capability location_normalized (k # ks) =
     (case capability k of
        None \<Rightarrow> first_valid capability location_normalized ks
      | Some cl \<Rightarrow>
          (case validate location_normalized cl of
             Some ctx \<Rightarrow> Some ctx
           | None \<Rightarrow> first_valid capability location_normalized ks))"

text \<open>
  Modelled from the spec: the classifier. ``On any validation failure, retry the
  classification call up to 2 times [...]; if still invalid, fall back to a
  deterministic default context'': the first call and two retries, then the fallback.
  The start and end date of the contract are passed to the capability only; here they
  are part of what \<open>capability\<close> answers to.
\<close>

definition classify ::
  "(nat \<Rightarrow> classification option) \<Rightarrow> string \<Rightarrow> (category \<times> rat) list \<Rightarrow> string \<Rightarrow> search_context" where
  "classify capability default_tier default_radii location_normalized =
     (case first_valid capability location_normalized [0, 1, 2] of
        Some ctx \<Rightarrow> ctx
      | None \<Rightarrow> fallback_context default_tier default_radii location_normalized)"

text \<open>
  For the statements below: two answers of the capability for New York City, the first
  as in the notes on the context router (four neighborhoods), the second with a single
  neighborhood.
\<close>

definition nyc_answer :: "string list \<Rightarrow> classification" where
  "nyc_answer ns =
     \<lparr>cl_location = ''New York City'',
      cl_city_type = ''large_metro'',
      cl_population_tier = ''mega'',
      cl_needs_neighborhood_strategy = True,
      cl_neighborhoods = ns,
      cl_search_parameters = [(Dining, 3 / 2), (Concerts, 25), (Locations, 2)],
      cl_strategy =
        [(Dining, NeighborhoodTargeted), (Locations, NeighborhoodTargeted),
         (Concerts, CityWide), (Events, CityWide)]\<rparr>"

definition four_neighborhoods :: "string list" where
  "four_neighborhoods =
     [''Williamsburg, Brooklyn'', ''Lower East Side, Manhattan'', ''Astoria, Queens'',
      ''Greenpoint, Brooklyn'']"

section \<open>Properties of the search request\<close>

lemma weekendParam_keys:
  "weekendParam (js ''this-weekend'') = js ''this''"
  "weekendParam (js ''next-weekend'') = js ''next''"
  "weekendParam (js ''two-weeks'') = js ''two-weeks''"
  "weekendParam (js ''custom'') = js ''this''"
  by (simp_all add: weekendParam_def weekendMap_def js_def)

lemma handleSubmit_None: "handleSubmit s = None \<longleftrightarrow> trim (input s) = [] \<or> loading s"
  by (simp add: handleSubmit_def Let_def)

lemma handleSearch_None: "handleSearch w = None \<longleftrightarrow> searchCity w = []"
  by (simp add: handleSearch_def)

lemma handleSubmit_request:
  "map_option snd (handleSubmit s) =
     (if trim (input s) = [] \<or> loading s then None
      else Some
        \<lparr>req_url = js ''http://localhost:8000/search'',
         req_method = js ''POST'',
         req_headers = [(js ''Content-Type'', js ''application/json'')],
         req_body = [(js ''city'', trim (input s)), (js ''weekend'', js ''next'')]\<rparr>)"
  by (simp add: handleSubmit_def API_URL_def js_def Let_def)

lemma handleSearch_request:
  "map_option snd (handleSearch w) =
     (if searchCity w = [] then None
      else Some
        \<lparr>req_url = js ''https://weekenders-app.onrender.com/search'',
         req_method = js ''POST'',
         req_headers = [(js ''Content-Type'', js ''application/json'')],
         req_body =
           [(js ''city'', trim (split_comma_first (searchCity w))),
            (js ''weekend'', weekendParam (searchDate w))]\<rparr>)"
  by (simp add: handleSearch_def)

lemma weekendParam_of_key:
  assumes "sd \<in> set dateOption_keys"
  shows "weekendParam sd =
     (if sd = js ''next-weekend'' then js ''next''
      else if sd = js ''two-weeks'' then js ''two-weeks''
      else js ''this'')"
proof -
  from assms consider "sd = js ''this-weekend''" | "sd = js ''next-weekend''"
    | "sd = js ''two-weeks''" | "sd = js ''custom''"
    by (auto simp: dateOption_keys_def)
  then show ?thesis
  proof cases
    case 1
    then show ?thesis by (simp add: weekendParam_keys) (simp add: js_def)
  next
    case 2
    then show ?thesis by (simp add: weekendParam_keys)
  next
    case 3
    then show ?thesis by (simp add: weekendParam_keys) (simp add: js_def)
  next
    case 4
    then show ?thesis by (simp add: weekendParam_keys) (simp add: js_def)
  qed
qed

text \<open>
  C10, as amended. A query submitted through the chat frontend (\<open>handleSubmit\<close> of App.jsx)
  sends no request exactly when the trimmed input is empty or a search is loading;
  otherwise it sends one request, POST to \<open>http://localhost:8000/search\<close>, whose body is
  exactly \<open>{city: <the trimmed input>, weekend: "next"}\<close>. A search started from the first
  component of WeekenderApp.jsx (\<open>handleSearch\<close>, with the date option one of the keys
  of \<open>dateOptions\<close>) sends no request exactly when the city field is empty; otherwise it
  sends one request, POST to \<open>https://weekenders-app.onrender.com/search\<close>, whose body is
  exactly \<open>{city: <the text before the first comma, trimmed>, weekend: w}\<close>, where \<open>w\<close> is
  \<open>"next"\<close> for the option \<open>'next-weekend'\<close>, \<open>"two-weeks"\<close> for \<open>'two-weeks'\<close> and \<open>"this"\<close>
  for \<open>'this-weekend'\<close> and \<open>'custom'\<close>. The second component of WeekenderApp.jsx sends no
  request at all. No body has a start or an end date.
\<close>

theorem search_request_bodies:
  "(handleSubmit s = None \<longleftrightarrow> trim (input s) = [] \<or> loading s)
   \<and> map_option snd (handleSubmit s) =
       (if trim (input s) = [] \<or> loading s then None
        else Some
          \<lparr>req_url = js ''http://localhost:8000/search'',
           req_method = js ''POST'',
           req_headers = [(js ''Content-Type'', js ''application/json'')],
           req_body = [(js ''city'', trim (input s)), (js ''weekend'', js ''next'')]\<rparr>)
   \<and> (handleSearch w = None \<longleftrightarrow> searchCity w = [])
   \<and> (searchDate w \<in> set dateOption_keys \<longrightarrow>
       map_option snd (handleSearch w) =
         (if searchCity w = [] then None
          else Some
            \<lparr>req_url = js ''https://weekenders-app.onrender.com/search'',
             req_method = js ''POST'',
             req_headers = [(js ''Content-Type'', js ''application/json'')],
             req_body =
               [(js ''city'', trim (split_comma_first (searchCity w))),
                (js ''weekend'',
                 if searchDate w = js ''next-weekend'' then js ''next''
                 else if searchDate w = js ''two-weeks'' then js ''two-weeks''
                 else js ''this'')]\<rparr>))
   \<and> snd (handleSearch_second w) = None"
proof -
  have "searchDate w \<in> set dateOption_keys \<Longrightarrow>
      weekendParam (searchDate w) =
        (if searchDate w = js ''next-weekend'' then js ''next''
         else if searchDate w = js ''two-weeks'' then js ''two-weeks''
         else js ''this'')"
    by (rule weekendParam_of_key)
  moreover have "snd (handleSearch_second w) = None"
    by (simp add: handleSearch_second_def)
  ultimately show ?thesis
    using handleSubmit_None [of s] handleSubmit_request [of s]
      handleSearch_None [of w] handleSearch_request [of w]
    by simp
qed

text \<open>
  The statement at the city field \<open>"Portland, ME"\<close> with the date option
  \<open>'next-weekend'\<close>: the option is a key of \<open>dateOptions\<close>, and the request sent has the
  body \<open>{city: "Portland", weekend: "next"}\<close>.
\<close>

theorem search_request_bodies_witness:
  "js ''next-weekend'' \<in> set dateOption_keys
   \<and> map_option snd
       (handleSearch \<lparr>searchCity = js ''Portland, ME'', searchDate = js ''next-weekend'',
          isSearching = False, searchError = []\<rparr>)
     = Some
         \<lparr>req_url = js ''https://weekenders-app.onrender.com/search'',
          req_method = js ''POST'',
          req_headers = [(js ''Content-Type'', js ''application/json'')],
          req_body = [(js ''city'', js ''Portland''), (js ''weekend'', js ''next'')]\<rparr>"
proof -
  define w0 where
    "w0 = \<lparr>searchCity = js ''Portland, ME'', searchDate = js ''next-weekend'',
          isSearching = False, searchError = []\<rparr>"
  define s0 where "s0 = \<lparr>messages = [], input = [], loading = False\<rparr>"
  have sd: "searchDate w0 = js ''next-weekend''" and sc: "searchCity w0 = js ''Portland, ME''"
    by (simp_all add: w0_def)
  have key: "js ''next-weekend'' \<in> set dateOption_keys"
    by (simp add: dateOption_keys_def)
  have city: "trim (split_comma_first (js ''Portland, ME'')) = js ''Portland''"
    by (simp add: split_comma_first_def trim_def is_js_space_def js_def)
  have nonempty: "(js ''Portland, ME'' = []) = False"
    by (simp add: js_def)
  from search_request_bodies [of s0 w0]
  have "searchDate w0 \<in> set dateOption_keys \<longrightarrow>
       map_option snd (handleSearch w0) =
         (if searchCity w0 = [] then None
          else Some
            \<lparr>req_url = js ''https://weekenders-app.onrender.com/search'',
             req_method = js ''POST'',
             req_headers = [(js ''Content-Type'', js ''application/json'')],
             req_body =
               [(js ''city'', trim (split_comma_first (searchCity w0))),
                (js ''weekend'',
                 if searchDate w0 = js ''next-weekend'' then js ''next''
                 else if searchDate w0 = js ''two-weeks'' then js ''two-weeks''
                 else js ''this'')]\<rparr>)"
    by blast
  with key have "map_option snd (handleSearch w0) =
         (if searchCity w0 = [] then None
          else Some
            \<lparr>req_url = js ''https://weekenders-app.onrender.com/search'',
             req_method = js ''POST'',
             req_headers = [(js ''Content-Type'', js ''application/json'')],
             req_body =
               [(js ''city'', trim (split_comma_first (searchCity w0))),
                (js ''weekend'',
                 if searchDate w0 = js ''next-weekend'' then js ''next''
                 else if searchDate w0 = js ''two-weeks'' then js ''two-weeks''
                 else js ''this'')]\<rparr>)"
    unfolding sd by (rule mp [rotated])
  then have "map_option snd (handleSearch w0) =
       Some
         \<lparr>req_url = js ''https://weekenders-app.onrender.com/search'',
          req_method = js ''POST'',
          req_headers = [(js ''Content-Type'', js ''application/json'')],
          req_body = [(js ''city'', js ''Portland''), (js ''weekend'', js ''next'')]\<rparr>"
    by (simp only: sd sc city nonempty if_False if_True simp_thms)
  with key show ?thesis unfolding w0_def by (rule conjI)
qed

text \<open>
  The claim as stated fails on the first component of WeekenderApp.jsx: with the city
  field \<open>"Austin, TX"\<close> and the initial date option \<open>'this-weekend'\<close>, the body is
  \<open>{city: "Austin", weekend: "this"}\<close>: the city is not the trimmed input and the weekend
  is not \<open>"next"\<close>.
\<close>

theorem search_request_not_always_next:
  "map_option (req_body \<circ> snd)
     (handleSearch \<lparr>searchCity = js ''Austin, TX'', searchDate = js ''this-weekend'',
        isSearching = False, searchError = []\<rparr>)
     = Some [(js ''city'', js ''Austin''), (js ''weekend'', js ''this'')]
   \<and> js ''Austin'' \<noteq> trim (js ''Austin, TX'')
   \<and> js ''this'' \<noteq> js ''next''"
  by (simp add: handleSearch_def weekendParam_def weekendMap_def split_comma_first_def
      trim_def is_js_space_def js_def)

section \<open>Properties of the classifier\<close>

lemma validate_neighborhoods:
  "validate loc cl = Some ctx \<Longrightarrow> neighborhoods_ok (sc_city_type ctx) (sc_neighborhoods ctx)"
  by (auto simp: validate_def split: option.splits if_splits)

lemma first_valid_neighborhoods:
  "first_valid capability loc ks = Some ctx \<Longrightarrow>
   neighborhoods_ok (sc_city_type ctx) (sc_neighborhoods ctx)"
proof (induction ks)
  case Nil
  then show ?case by simp
next
  case (Cons k ks)
  then show ?case
    by (auto split: option.splits dest: validate_neighborhoods)
qed

lemma fallback_neighborhoods:
  "neighborhoods_ok (sc_city_type (fallback_context t rs loc))
     (sc_neighborhoods (fallback_context t rs loc))"
  by (simp add: fallback_context_def)

lemma classify_neighborhoods_ok:
  "neighborhoods_ok (sc_city_type (classify capability t rs loc))
     (sc_neighborhoods (classify capability t rs loc))"
proof (cases "first_valid capability loc [0, 1, 2]")
  case None
  then show ?thesis by (simp add: classify_def fallback_neighborhoods)
next
  case (Some ctx)
  then show ?thesis
    using first_valid_neighborhoods [of capability loc "[0, 1, 2]" ctx]
    by (simp add: classify_def)
qed

text \<open>
  C3. Every SearchContext that leaves the classifier, validated or fallback, whatever
  the capability answers: if its city type is large_metro, its neighborhoods list has
  between 3 and 6 entries; if it is medium_city or small_town, the list is empty.
\<close>

theorem classifier_neighborhoods:
  "(sc_city_type (classify capability default_tier default_radii loc) = LargeMetro \<longrightarrow>
      3 \<le> length (sc_neighborhoods (classify capability default_tier default_radii loc))
      \<and> length (sc_neighborhoods (classify capability default_tier default_radii loc)) \<le> 6)
   \<and> (sc_city_type (classify capability default_tier default_radii loc) = MediumCity
       \<or> sc_city_type (classify capability default_tier default_radii loc) = SmallTown \<longrightarrow>
      sc_neighborhoods (classify capability default_tier default_radii loc) = [])"
  using classify_neighborhoods_ok [of capability default_tier default_radii loc]
  by (cases "sc_city_type (classify capability default_tier default_radii loc)") simp_all

text \<open>
  The statement at two capabilities: one that answers with four neighborhoods for New
  York City, whose context is the validated large metro with those four, and one that
  answers every call with a single neighborhood, whose context is the fallback: a
  medium city without neighborhoods.
\<close>

theorem classifier_neighborhoods_witness:
  "sc_city_type
     (classify (\<lambda>k. Some (nyc_answer four_neighborhoods)) ''medium''
        [(Dining, 5), (Concerts, 20), (Locations, 5)] ''New York City'') = LargeMetro
   \<and> length (sc_neighborhoods
     (classify (\<lambda>k. Some (nyc_answer four_neighborhoods)) ''medium''
        [(Dining, 5), (Concerts, 20), (Locations, 5)] ''New York City'')) = 4
   \<and> sc_city_type
     (classify (\<lambda>k. Some (nyc_answer [''Williamsburg, Brooklyn''])) ''medium''
        [(Dining, 5), (Concerts, 20), (Locations, 5)] ''New York City'') = MediumCity
   \<and> sc_neighborhoods
     (classify (\<lambda>k. Some (nyc_answer [''Williamsburg, Brooklyn''])) ''medium''
        [(Dining, 5), (Concerts, 20), (Locations, 5)] ''New York City'') = []"
proof -
  have large: "sc_city_type
     (classify (\<lambda>k. Some (nyc_answer four_neighborhoods)) ''medium''
        [(Dining, 5), (Concerts, 20), (Locations, 5)] ''New York City'') = LargeMetro"
    by code_simp
  have four: "length (sc_neighborhoods
     (classify (\<lambda>k. Some (nyc_answer four_neighborhoods)) ''medium''
        [(Dining, 5), (Concerts, 20), (Locations, 5)] ''New York City'')) = 4"
    by code_simp
  have medium: "sc_city_type
     (classify (\<lambda>k. Some (nyc_answer [''Williamsburg, Brooklyn''])) ''medium''
        [(Dining, 5), (Concerts, 20), (Locations, 5)] ''New York City'') = MediumCity"
    by code_simp
  show ?thesis
    using large four medium
      classifier_neighborhoods [of "\<lambda>k. Some (nyc_answer four_neighborhoods)" "''medium''"
        "[(Dining, 5), (Concerts, 20), (Locations, 5)]" "''New York City''"]
      classifier_neighborhoods [of "\<lambda>k. Some (nyc_answer [''Williamsburg, Brooklyn''])"
        "''medium''" "[(Dining, 5), (Concerts, 20), (Locations, 5)]" "''New York City''"]
    by simp
qed

end
